theory Spec2Isabelle
  imports Main
begin

section \<open>Go values used by package netutils\<close>

text \<open>
  A Go \<^verbatim>\<open>[]byte\<close> is a list of bytes. Isabelle's \<^typ>\<open>char\<close> is an 8-bit byte, so a
  byte slice is a \<^typ>\<open>string\<close> and the payload \<^verbatim>\<open>"hello"\<close> is the literal
  \<^term>\<open>''hello''\<close>. No arithmetic is done on the bytes themselves.
\<close>

type_synonym bytes = "char list"

text \<open>
  Go \<^verbatim>\<open>error\<close> values. \<open>None\<close> of \<open>go_error option\<close> is the \<^verbatim>\<open>nil\<close> error.
  \<^item> \<open>EOF\<close> is the sentinel \<^verbatim>\<open>io.EOF\<close>;
  \<^item> \<open>New msg\<close> is \<^verbatim>\<open>errors.New(msg)\<close>, and also \<^verbatim>\<open>fmt.Errorf\<close> with no \<^verbatim>\<open>%w\<close> verb
    (a plain message, wrapping nothing);
  \<^item> \<open>Join es\<close> is \<^verbatim>\<open>errors.Join(es...)\<close> for non-nil \<open>es\<close>: an error that wraps every
    element of \<open>es\<close>.
\<close>

datatype go_error =
    EOF
  | New string
  | Join "go_error list"

text \<open>
  \<^verbatim>\<open>errors.Is(err, target)\<close>: \<open>err\<close> is \<open>target\<close>, or an error that \<open>err\<close> wraps is.
  Only \<open>Join\<close> wraps. (The source only ever asks for \<open>target = io.EOF\<close>.)
\<close>

fun errors_Is :: "go_error \<Rightarrow> go_error \<Rightarrow> bool" where
  "errors_Is (Join es) target = (Join es = target \<or> list_ex (\<lambda>e. errors_Is e target) es)"
| "errors_Is e target = (e = target)"

text \<open>Run-time panics that the two read operations can raise.\<close>

datatype panic =
    IndexOutOfRange      \<comment> \<open>\<^verbatim>\<open>opts[0]\<close> on a slice of length 0\<close>
  | MakeSliceOutOfRange  \<comment> \<open>\<^verbatim>\<open>make([]byte, n)\<close> with a negative length or capacity\<close>
  | NilDereference       \<comment> \<open>\<^verbatim>\<open>*data = ...\<close> through a nil pointer\<close>

text \<open>
  What a call does to its caller: it returns its pair \<^verbatim>\<open>(n, err)\<close>, or it panics.
\<close>

datatype ret =
    Returns int "go_error option"
  | Panics panic

section \<open>The payload type: interface Convertable\<close>

text \<open>
  A type parameter \<^verbatim>\<open>T Convertable\<close> is passed as the record of its methods
  (\<^verbatim>\<open>part_001\<close>, lines 15--24), together with its zero value (\<^verbatim>\<open>var newData T\<close>) and the
  name \<^verbatim>\<open>reflect.TypeOf\<close> prints for \<^verbatim>\<open>*T\<close>.
  \<^item> \<open>Marshal v\<close> is \<^verbatim>\<open>v.Marshal()\<close>: \<open>Inl e\<close> when it returns the non-nil error \<open>e\<close>,
    \<open>Inr data\<close> otherwise;
  \<^item> \<open>Unmarshal r data\<close> is \<^verbatim>\<open>r.Unmarshal(&r, data)\<close>: \<open>Inl e\<close> when it returns the non-nil
    error \<open>e\<close>, \<open>Inr r'\<close> when it returns nil and leaves \<open>r'\<close> in the variable.
\<close>

record 't Convertable =
  Marshal :: "'t \<Rightarrow> go_error + bytes"
  Unmarshal :: "'t \<Rightarrow> bytes \<Rightarrow> go_error + 't"
  zero :: "'t"
  type_name :: string

section \<open>Read options\<close>

text \<open>\<^verbatim>\<open>part_001\<close>, lines 28--38. A Go \<^verbatim>\<open>int\<close>; the values are only compared with 0.\<close>

record ReadOptions =
  BufferSize :: int
  ChunkSize :: int

definition defaultReadOptions :: ReadOptions where
  "defaultReadOptions = \<lparr>BufferSize = 4096, ChunkSize = 256\<rparr>"

text \<open>
  The variadic parameter \<^verbatim>\<open>opts ...ReadOptions\<close> is a slice: \<open>None\<close> is the nil slice (what
  a call with no options passes), \<open>Some os\<close> a non-nil slice with the elements \<open>os\<close>
  (\<open>Some []\<close> is what \<^verbatim>\<open>Read(&d, []ReadOptions{}...)\<close> passes).

  The block that both \<^verbatim>\<open>Read\<close> (\<^verbatim>\<open>part_001\<close>, lines 90--95) and \<^verbatim>\<open>ReadFrom\<close>
  (\<^verbatim>\<open>typedsockets_tcp.go\<close>, lines 32--37) start with:
  \<^verbatim>\<open>if opts == nil { readOpts = defaultReadOptions() } else { readOpts = opts[0] }\<close>.
  Indexing an empty slice panics.
\<close>

fun readOpts :: "ReadOptions list option \<Rightarrow> panic + ReadOptions" where
  "readOpts None = Inr defaultReadOptions"
| "readOpts (Some []) = Inl IndexOutOfRange"
| "readOpts (Some (first # others)) = Inr first"

section \<open>The connection handle: interface net.Conn\<close>

text \<open>The dynamic type behind the \<^verbatim>\<open>net.Conn\<close> interface value.\<close>

datatype conn_dyn_type = TCPConn | UDPConn | OtherConn

text \<open>
  The state of a connection, as far as \<^verbatim>\<open>Read\<close>, \<^verbatim>\<open>Write\<close> and \<^verbatim>\<open>ReadFrom\<close> can
  observe it:
  \<^item> \<open>rx\<close>: the data that has arrived and is not read yet, in the pieces it arrived in
    (segments of a stream, datagrams of a datagram socket);
  \<^item> \<open>rx_end\<close>: the error a read reports once \<open>rx\<close> is drained: \<open>EOF\<close> when the peer has
    closed the stream, a timeout when the read deadline passes first, and so on;
  \<^item> \<open>tx\<close>: the bytes handed to the transport so far, that is, what the peer observes;
  \<^item> \<open>tx_fault\<close>: \<open>None\<close> when sending works; \<open>Some (k, e)\<close> when a send stops after at most
    \<open>k\<close> bytes with the error \<open>e\<close>.
\<close>

record net_Conn =
  dyn_type :: conn_dyn_type
  rx :: "bytes list"
  rx_end :: go_error
  tx :: bytes
  tx_fault :: "(nat \<times> go_error) option"

text \<open>
  \<^verbatim>\<open>conn.Read(p)\<close> with \<open>n = len(p)\<close>: the bytes stored into \<open>p[0:amount]\<close>, the
  error, and the connection afterwards.
  \<^item> A read into an empty slice returns \<^verbatim>\<open>(0, nil)\<close> at once and consumes nothing (Go's
    network file descriptors return before the system call when \<^verbatim>\<open>len(p) == 0\<close>).
  \<^item> With nothing left to read, the read reports \<open>rx_end\<close> and no bytes.
  \<^item> Otherwise it returns at most \<open>n\<close> bytes of the first piece. A stream keeps the rest
    of the piece for the next read; a datagram socket discards it.
\<close>

definition conn_Read :: "net_Conn \<Rightarrow> nat \<Rightarrow> bytes \<times> go_error option \<times> net_Conn" where
  "conn_Read c n =
     (if n = 0 then ([], None, c)
      else case rx c of
        [] \<Rightarrow> ([], Some (rx_end c), c)
      | seg # rest \<Rightarrow>
          (take n seg, None,
           c\<lparr>rx := (if dyn_type c = UDPConn \<or> length seg \<le> n then rest
                     else drop n seg # rest)\<rparr>))"

text \<open>
  \<^verbatim>\<open>conn.Write(b)\<close>: the number of bytes written, the error, and the connection afterwards.
\<close>

definition conn_Write :: "net_Conn \<Rightarrow> bytes \<Rightarrow> nat \<times> go_error option \<times> net_Conn" where
  "conn_Write c b =
     (case tx_fault c of
        None \<Rightarrow> (length b, None, c\<lparr>tx := tx c @ b\<rparr>)
      | Some (k, e) \<Rightarrow> (min k (length b), Some e, c\<lparr>tx := tx c @ take k b\<rparr>))"

text \<open>
  \<^verbatim>\<open>(*net.TCPConn).ReadFrom(r)\<close> implements \<^verbatim>\<open>io.ReaderFrom\<close>: it reads \<open>r\<close> until its end
  and \<^emph>\<open>writes\<close> what it reads to the connection; the count is the number of bytes taken
  from \<open>r\<close>. Here \<open>r\<close> is always a \<^verbatim>\<open>bytes.Reader\<close> over a slice \<open>src\<close>, which is a
  read-only view: nothing can store into \<open>src\<close> through it. So the call sends \<open>src\<close>
  and leaves both \<open>src\<close> and the unread input \<open>rx\<close> as they are. The copy hands all of
  \<open>src\<close> to one \<^verbatim>\<open>Write\<close>; when \<open>src\<close> is empty the reader is already at its end and
  nothing is written at all, so the call returns \<^verbatim>\<open>(0, nil)\<close> even on a connection whose
  sends fail.
\<close>

definition TCPConn_ReadFrom :: "net_Conn \<Rightarrow> bytes \<Rightarrow> nat \<times> go_error option \<times> net_Conn" where
  "TCPConn_ReadFrom c src = (if src = [] then (0, None, c) else conn_Write c src)"

section \<open>TypedConnection\<close>

text \<open>\<^verbatim>\<open>part_001\<close>, lines 40--45 and 64--75.\<close>

datatype ConnectionType = ConnectionTypeTCP | ConnectionTypeUDP

record TypedConnection =
  conn :: net_Conn
  connectionType :: ConnectionType

definition NewTypedConnection :: "net_Conn \<Rightarrow> ConnectionType \<Rightarrow> TypedConnection" where
  "NewTypedConnection c ct = \<lparr>conn = c, connectionType = ct\<rparr>"

text \<open>
  The loop of \<^verbatim>\<open>Read\<close> (\<^verbatim>\<open>part_001\<close>, lines 100--111), with \<open>n = len(chunk)\<close>. It leaves
  in one of two ways:
  \<^item> \<open>AtEOF amount err c\<close>: the \<^verbatim>\<open>return amount, err\<close> of line 104, where \<open>amount\<close> is what
    the last \<^verbatim>\<open>conn.Read\<close> returned;
  \<^item> \<open>Broke buffer c\<close>: the \<^verbatim>\<open>break\<close> of line 107, with the bytes appended so far.
  The loop need not end (a chunk of length 0 never does), so it is a partial function:
  \<open>None\<close> is a call that does not return.
\<close>

datatype loop_exit =
    AtEOF int go_error net_Conn
  | Broke bytes net_Conn

partial_function (option) read_loop :: "nat \<Rightarrow> net_Conn \<Rightarrow> bytes \<Rightarrow> loop_exit option" where
  "read_loop n c buffer =
     (case conn_Read c n of
        (got, err, c') \<Rightarrow>
          (case err of
             Some e \<Rightarrow>
               (if errors_Is e EOF then Some (AtEOF (int (length got)) e c')
                else Some (Broke buffer c'))
           | None \<Rightarrow> read_loop n c' (buffer @ got)))"

text \<open>
  \<^verbatim>\<open>func (tc *TypedConnection[T]) Read(data *T, opts ...ReadOptions) (int, error)\<close>
  (\<^verbatim>\<open>part_001\<close>, lines 85--122).

  The pointer \<open>data\<close> is \<open>None\<close> when nil and \<open>Some v\<close> when it points to a variable that
  holds \<open>v\<close>. The result is \<open>None\<close> when the call does not return; otherwise it is what the
  call returns (or the panic), the pointer with the variable's contents after the call, and
  the connection after the call.
\<close>

definition TypedConnection_Read ::
  "'t Convertable \<Rightarrow> TypedConnection \<Rightarrow> 't option \<Rightarrow> ReadOptions list option
     \<Rightarrow> (ret \<times> 't option \<times> net_Conn) option" where
  "TypedConnection_Read T tc data opts =
     (case data of
        None \<Rightarrow> Some (Returns 0 (Some (New ''data pointer was nil'')), None, conn tc)
      | Some old \<Rightarrow>
          (case readOpts opts of
             Inl p \<Rightarrow> Some (Panics p, data, conn tc)
           | Inr ro \<Rightarrow>
               if BufferSize ro < 0 \<or> ChunkSize ro < 0
               then Some (Panics MakeSliceOutOfRange, data, conn tc)
               else
                 (case read_loop (nat (ChunkSize ro)) (conn tc) [] of
                    None \<Rightarrow> None
                  | Some (AtEOF amount err c') \<Rightarrow> Some (Returns amount (Some err), data, c')
                  | Some (Broke buffer c') \<Rightarrow>
                      (case Unmarshal T (zero T) buffer of
                         Inl err \<Rightarrow>
                           Some (Returns 0
                                   (Some (Join [New ''unmarshal of data returned an error'', err])),
                                 data, c')
                       | Inr newData \<Rightarrow>
                           Some (Returns (int (length buffer)) None, Some newData, c')))))"

text \<open>
  \<^verbatim>\<open>func (tc *TypedConnection[T]) Write(data T) (int, error)\<close>
  (\<^verbatim>\<open>part_001\<close>, lines 126--133): what the call returns and the connection afterwards.
\<close>

definition TypedConnection_Write ::
  "'t Convertable \<Rightarrow> TypedConnection \<Rightarrow> 't \<Rightarrow> ret \<times> net_Conn" where
  "TypedConnection_Write T tc data =
     (case Marshal T data of
        Inl err \<Rightarrow>
          (Returns 0 (Some (Join [New ''could not marshal data to write'', err])), conn tc)
      | Inr buffer \<Rightarrow>
          (case conn_Write (conn tc) buffer of
             (n, err, c') \<Rightarrow> (Returns (int n) err, c')))"

section \<open>TCPTypedConnection\<close>

text \<open>
  \<^verbatim>\<open>TCPTypedConnection[T]\<close> embeds \<^verbatim>\<open>TypedConnection[T]\<close> and adds no field
  (\<^verbatim>\<open>typedsockets_tcp.go\<close>, lines 13--20). The constructor takes any \<^verbatim>\<open>net.Conn\<close>.
\<close>

type_synonym TCPTypedConnection = TypedConnection

definition NewTCPTypedConnection :: "net_Conn \<Rightarrow> TCPTypedConnection" where
  "NewTCPTypedConnection c = \<lparr>conn = c, connectionType = ConnectionTypeTCP\<rparr>"

text \<open>
  \<^verbatim>\<open>func (ttc *TCPTypedConnection[T]) ReadFrom(data *T, opts ...ReadOptions) (int64, error)\<close>
  (\<^verbatim>\<open>typedsockets_tcp.go\<close>, lines 31--62). There is no loop, so the call always returns or
  panics.

  \<^verbatim>\<open>buffer := make([]byte, readOpts.BufferSize)\<close> is \<open>BufferSize\<close> zero bytes, and
  \<^verbatim>\<open>bytes.NewReader(buffer)\<close> reads from it; see \<open>TCPConn_ReadFrom\<close>.
\<close>

definition TCPTypedConnection_ReadFrom ::
  "'t Convertable \<Rightarrow> TCPTypedConnection \<Rightarrow> 't option \<Rightarrow> ReadOptions list option
     \<Rightarrow> ret \<times> 't option \<times> net_Conn" where
  "TCPTypedConnection_ReadFrom T ttc data opts =
     (case readOpts opts of
        Inl p \<Rightarrow> (Panics p, data, conn ttc)
      | Inr ro \<Rightarrow>
          (case dyn_type (conn ttc) of
             TCPConn \<Rightarrow>
               if BufferSize ro < 0 then (Panics MakeSliceOutOfRange, data, conn ttc)
               else
                 (let buffer = replicate (nat (BufferSize ro)) (CHR 0x00) in
                  case TCPConn_ReadFrom (conn ttc) buffer of
                    (amountRead, err, c') \<Rightarrow>
                      (case err of
                         Some e \<Rightarrow>
                           (Returns (int amountRead)
                              (Some (Join [New ''could not receive incoming buffer'', e])),
                            data, c')
                       | None \<Rightarrow>
                           (let resizedBuffer = take amountRead buffer in
                            case Unmarshal T (zero T) resizedBuffer of
                              Inl e \<Rightarrow>
                                (Returns (int amountRead)
                                   (Some (Join [New (''could not unmarshal incoming buffer into ''
                                                      @ type_name T)])),
                                 data, c')
                            | Inr newData \<Rightarrow>
                                (case data of
                                   None \<Rightarrow> (Panics NilDereference, None, c')
                                 | Some old \<Rightarrow>
                                     (Returns (int amountRead) None, Some newData, c')))))
           | UDPConn \<Rightarrow>
               (Returns 0 (Some (New ''conn is an invalid connection type for this method'')),
                data, conn ttc)
           | OtherConn \<Rightarrow>
               (Returns 0 (Some (New ''conn is an invalid connection type for this method'')),
                data, conn ttc)))"

section \<open>Example payload types and connections\<close>

text \<open>
  \<open>StringPayload\<close>: the payload is its own encoding; neither conversion fails.
\<close>

definition StringPayload :: "string Convertable" where
  "StringPayload =
     \<lparr>Marshal = (\<lambda>v. Inr v),
      Unmarshal = (\<lambda>r data. Inr data),
      zero = [],
      type_name = ''*netutils.StringPayload''\<rparr>"

text \<open>
  \<open>StrictPayload\<close>: a text payload that refuses to encode the empty text and refuses
  to decode data with a NUL byte in it.
\<close>

definition StrictPayload :: "string Convertable" where
  "StrictPayload =
     \<lparr>Marshal = (\<lambda>v. if v = [] then Inl (New ''empty payload'') else Inr v),
      Unmarshal = (\<lambda>r data. if CHR 0x00 \<in> set data then Inl (New ''NUL byte in payload'')
                               else Inr data),
      zero = [],
      type_name = ''*netutils.StrictPayload''\<rparr>"

text \<open>
  A stream socket on which \<^verbatim>\<open>hello\<close> has arrived before the peer closed, one on which it
  has arrived in two segments before the read deadline passes, a datagram socket
  holding one datagram, and a stream socket with nothing received and nothing sent.
\<close>

definition hello_then_EOF :: net_Conn where
  "hello_then_EOF =
     \<lparr>dyn_type = TCPConn, rx = [''hello''], rx_end = EOF, tx = [], tx_fault = None\<rparr>"

definition hello_then_timeout :: net_Conn where
  "hello_then_timeout =
     \<lparr>dyn_type = TCPConn, rx = [''hel'', ''lo''], rx_end = New ''i/o timeout'',
      tx = [], tx_fault = None\<rparr>"

definition datagram_socket :: net_Conn where
  "datagram_socket =
     \<lparr>dyn_type = UDPConn, rx = [''hello''], rx_end = New ''i/o timeout'',
      tx = [], tx_fault = None\<rparr>"

definition fresh_socket :: net_Conn where
  "fresh_socket =
     \<lparr>dyn_type = TCPConn, rx = [], rx_end = EOF, tx = [], tx_fault = None\<rparr>"

text \<open>A stream socket whose input has a NUL byte in it when the read deadline passes.\<close>

definition nul_then_timeout :: net_Conn where
  "nul_then_timeout =
     \<lparr>dyn_type = TCPConn, rx = [''he'', [CHR 0x00], ''lo''], rx_end = New ''i/o timeout'',
      tx = [], tx_fault = None\<rparr>"

text \<open>The same input, followed by the peer closing the stream.\<close>

definition nul_then_EOF :: net_Conn where
  "nul_then_EOF =
     \<lparr>dyn_type = TCPConn, rx = [''he'', [CHR 0x00], ''lo''], rx_end = EOF,
      tx = [], tx_fault = None\<rparr>"

section \<open>The chunked loop\<close>

text \<open>
  What the reads of a loop with chunk length \<open>n\<close> take out of a connection until nothing
  is left: a stream gives all of its bytes, whatever the segments were; a datagram socket
  gives the first \<open>n\<close> bytes of each datagram.
\<close>

definition drained :: "nat \<Rightarrow> net_Conn \<Rightarrow> bytes" where
  "drained n c =
     (if dyn_type c = UDPConn then concat (map (take n) (rx c)) else concat (rx c))"

lemma read_loop_empty:
  "0 < n \<Longrightarrow> rx c = [] \<Longrightarrow>
   read_loop n c buffer =
     Some (if errors_Is (rx_end c) EOF then AtEOF 0 (rx_end c) c else Broke buffer c)"
  by (subst read_loop.simps) (simp add: conn_Read_def)

lemma read_loop_step:
  "0 < n \<Longrightarrow> rx c = seg # rest \<Longrightarrow>
   read_loop n c buffer =
     read_loop n (c\<lparr>rx := (if dyn_type c = UDPConn \<or> length seg \<le> n then rest
                               else drop n seg # rest)\<rparr>) (buffer @ take n seg)"
  by (subst read_loop.simps) (simp add: conn_Read_def)

text \<open>
  With a chunk of positive length the loop ends, and it ends in the way \<open>rx_end\<close> decides:
  every read takes a byte or a whole piece off \<open>rx\<close>.
\<close>

lemma read_loop_drains:
  "0 < n \<Longrightarrow>
   read_loop n c buffer =
     Some (if errors_Is (rx_end c) EOF then AtEOF 0 (rx_end c) (c\<lparr>rx := []\<rparr>)
           else Broke (buffer @ drained n c) (c\<lparr>rx := []\<rparr>))"
proof (induction "length (concat (rx c)) + length (rx c)" arbitrary: c buffer rule: less_induct)
  case less
  show ?case
  proof (cases "rx c")
    case Nil
    then have "c\<lparr>rx := []\<rparr> = c" by simp
    with Nil less.prems show ?thesis
      by (simp add: read_loop_empty drained_def)
  next
    case (Cons seg rest)
    let ?c' = "c\<lparr>rx := (if dyn_type c = UDPConn \<or> length seg \<le> n then rest
                               else drop n seg # rest)\<rparr>"
    have smaller:
      "length (concat (rx ?c')) + length (rx ?c') < length (concat (rx c)) + length (rx c)"
      using Cons less.prems by auto
    have step: "read_loop n c buffer = read_loop n ?c' (buffer @ take n seg)"
      using less.prems Cons by (rule read_loop_step)
    have acc: "take n seg @ drained n ?c' = drained n c"
      using Cons by (auto simp: drained_def)
    have same_end: "rx_end ?c' = rx_end c" and same_rest: "?c'\<lparr>rx := []\<rparr> = c\<lparr>rx := []\<rparr>"
      by simp_all
    have "read_loop n ?c' (buffer @ take n seg) =
        Some (if errors_Is (rx_end ?c') EOF then AtEOF 0 (rx_end ?c') (?c'\<lparr>rx := []\<rparr>)
           else Broke ((buffer @ take n seg) @ drained n ?c') (?c'\<lparr>rx := []\<rparr>))"
      using smaller less.prems by (rule less.hyps)
    then have "read_loop n c buffer =
        Some (if errors_Is (rx_end c) EOF then AtEOF 0 (rx_end c) (c\<lparr>rx := []\<rparr>)
           else Broke (buffer @ (take n seg @ drained n ?c')) (c\<lparr>rx := []\<rparr>))"
      unfolding step same_end same_rest append_assoc .
    then show ?thesis unfolding acc .
  qed
qed

text \<open>With a chunk of length 0 every read returns \<^verbatim>\<open>(0, nil)\<close> and the loop never ends.\<close>

lemma read_loop_needs_chunk:
  assumes "read_loop n c buffer = Some r"
  shows "n \<noteq> 0"
proof (rule read_loop.raw_induct [where P = "\<lambda>n c buffer r. n \<noteq> 0", OF _ assms])
  fix loop :: "nat \<Rightarrow> net_Conn \<Rightarrow> bytes \<Rightarrow> loop_exit option" and n c buffer r
  assume again: "\<And>n c buffer r. loop n c buffer = Some r \<Longrightarrow> n \<noteq> 0"
    and body: "(case conn_Read c n of
                  (got, None, c') \<Rightarrow> loop n c' (buffer @ got)
                | (got, Some e, c') \<Rightarrow>
                    if errors_Is e EOF then Some (AtEOF (int (length got)) e c')
                    else Some (Broke buffer c')) = Some r"
  show "n \<noteq> 0"
  proof
    assume "n = 0"
    with body have "loop 0 c buffer = Some r" by (simp add: conn_Read_def)
    with again show False by blast
  qed
qed

lemma read_loop_zero_chunk: "read_loop 0 c buffer = None"
  using read_loop_needs_chunk [of 0 c buffer] by (cases "read_loop 0 c buffer") auto

text \<open>
  \<^verbatim>\<open>Read\<close> once its options are known and its two slices can be made: the loop, then the
  conversion.
\<close>

lemma Read_after_loop:
  assumes "readOpts opts = Inr ro" and "0 \<le> BufferSize ro" and "0 < ChunkSize ro"
  shows "TypedConnection_Read T tc (Some old) opts =
     (if errors_Is (rx_end (conn tc)) EOF
      then Some (Returns 0 (Some (rx_end (conn tc))), Some old, (conn tc)\<lparr>rx := []\<rparr>)
      else case Unmarshal T (zero T) (drained (nat (ChunkSize ro)) (conn tc)) of
             Inl err \<Rightarrow>
               Some (Returns 0 (Some (Join [New ''unmarshal of data returned an error'', err])),
                     Some old, (conn tc)\<lparr>rx := []\<rparr>)
           | Inr newData \<Rightarrow>
               Some (Returns (int (length (drained (nat (ChunkSize ro)) (conn tc)))) None,
                     Some newData, (conn tc)\<lparr>rx := []\<rparr>))"
proof -
  have "0 < nat (ChunkSize ro)" using assms(3) by simp
  then have "read_loop (nat (ChunkSize ro)) (conn tc) [] =
     Some (if errors_Is (rx_end (conn tc)) EOF
           then AtEOF 0 (rx_end (conn tc)) ((conn tc)\<lparr>rx := []\<rparr>)
           else Broke ([] @ drained (nat (ChunkSize ro)) (conn tc)) ((conn tc)\<lparr>rx := []\<rparr>))"
    by (rule read_loop_drains)
  with assms show ?thesis
    by (simp add: TypedConnection_Read_def split: sum.split)
qed

lemma Read_zero_chunk_never_returns:
  assumes "readOpts opts = Inr ro" and "0 \<le> BufferSize ro" and "ChunkSize ro = 0"
  shows "TypedConnection_Read T tc (Some old) opts = None"
  using assms by (simp add: TypedConnection_Read_def read_loop_zero_chunk)

section \<open>Errors and their causes\<close>

lemma errors_Is_self: "errors_Is e e"
  by (cases e) simp_all

text \<open>The two-argument \<^verbatim>\<open>errors.Join(context, cause)\<close> of \<^verbatim>\<open>Read\<close> and \<^verbatim>\<open>Write\<close> keeps the cause.\<close>

lemma Join_keeps_cause: "errors_Is (Join [context, cause]) cause"
  by (simp add: errors_Is_self)

section \<open>The bulk read never takes input\<close>

text \<open>
  Whatever its arguments, \<^verbatim>\<open>ReadFrom\<close> leaves the unread input of the connection where it
  is: its only call on the connection sends.
\<close>

lemma ReadFrom_leaves_input:
  "rx (snd (snd (TCPTypedConnection_ReadFrom T ttc data opts))) = rx (conn ttc)"
  by (simp add: TCPTypedConnection_ReadFrom_def TCPConn_ReadFrom_def conn_Write_def Let_def
        split: sum.split conn_dyn_type.split option.split prod.split)

text \<open>
  With a buffer size of 0 there is nothing to send: the bulk call returns \<^verbatim>\<open>(0, nil)\<close> and
  leaves the connection as it is, also when its sends would fail.
\<close>

lemma TCPConn_ReadFrom_empty: "TCPConn_ReadFrom c [] = (0, None, c)"
  by (simp add: TCPConn_ReadFrom_def)

section \<open>Properties of Read\<close>

text \<open>
  \<^bold>\<open>C5.\<close> Calling \<^verbatim>\<open>Read\<close> with a nil destination pointer returns zero bytes and the
  error \<^verbatim>\<open>data pointer was nil\<close>, whatever the options and the connection are; the
  connection is as it was (nothing has been read from it) and there is no destination
  to change.
\<close>

theorem Read_nil_destination:
  "TypedConnection_Read T tc None opts =
     Some (Returns 0 (Some (New ''data pointer was nil'')), None, conn tc)"
  by (simp add: TypedConnection_Read_def)

theorem Read_nil_destination_witness:
  "TypedConnection_Read StringPayload (NewTCPTypedConnection hello_then_EOF) None (Some []) =
     Some (Returns 0 (Some (New ''data pointer was nil'')), None, hello_then_EOF)"
  using Read_nil_destination [of StringPayload "NewTCPTypedConnection hello_then_EOF" "Some []"]
  by (simp add: NewTCPTypedConnection_def)

text \<open>
  \<^bold>\<open>C6.\<close> As stated (bytes that cannot be unmarshalled always give zero bytes and a
  \<^emph>\<open>wrapped\<close> error) the property fails when those bytes are followed by end-of-stream:
  line 104 returns before \<^verbatim>\<open>Unmarshal\<close> is called, and the error is \<^verbatim>\<open>io.EOF\<close> itself.
  What holds: if the bytes that the reads of \<^verbatim>\<open>Read\<close> take off the connection cannot be
  unmarshalled into \<open>T\<close>, then \<^verbatim>\<open>Read\<close> (destination not nil, chunk size positive, buffer
  size not negative) returns zero bytes and an error, and the destination holds the value
  it held before the call. The error joins \<^verbatim>\<open>unmarshal of data returned an error\<close> with
  the cause when the reads ended with an error that is not end-of-stream; it is the
  end-of-stream error, not wrapped, when they ended with end-of-stream.
\<close>

theorem Read_unmarshal_failure:
  assumes "readOpts opts = Inr ro" and "0 \<le> BufferSize ro" and "0 < ChunkSize ro"
    and "Unmarshal T (zero T) (drained (nat (ChunkSize ro)) (conn tc)) = Inl cause"
  shows "TypedConnection_Read T tc (Some old) opts =
     Some (Returns 0
             (Some (if errors_Is (rx_end (conn tc)) EOF then rx_end (conn tc)
                    else Join [New ''unmarshal of data returned an error'', cause])),
           Some old, (conn tc)\<lparr>rx := []\<rparr>)"
  using assms by (simp add: Read_after_loop)

theorem Read_unmarshal_failure_witness:
  "TypedConnection_Read StrictPayload (NewTCPTypedConnection nul_then_timeout) (Some ''old'') None =
     Some (Returns 0 (Some (Join [New ''unmarshal of data returned an error'',
                                  New ''NUL byte in payload''])),
           Some ''old'', nul_then_timeout\<lparr>rx := []\<rparr>)
   \<and> TypedConnection_Read StrictPayload (NewTCPTypedConnection nul_then_EOF) (Some ''old'') None =
     Some (Returns 0 (Some EOF), Some ''old'', nul_then_EOF\<lparr>rx := []\<rparr>)"
proof -
  let ?timeout = "NewTCPTypedConnection nul_then_timeout"
  let ?closed = "NewTCPTypedConnection nul_then_EOF"
  have o: "readOpts None = Inr defaultReadOptions" by simp
  have b: "0 \<le> BufferSize defaultReadOptions" and k: "0 < ChunkSize defaultReadOptions"
    by (simp_all add: defaultReadOptions_def)
  have u: "Unmarshal StrictPayload (zero StrictPayload)
             (drained (nat (ChunkSize defaultReadOptions)) (conn ?timeout)) =
           Inl (New ''NUL byte in payload'')"
    by (simp add: NewTCPTypedConnection_def nul_then_timeout_def StrictPayload_def drained_def)
  have u': "Unmarshal StrictPayload (zero StrictPayload)
             (drained (nat (ChunkSize defaultReadOptions)) (conn ?closed)) =
           Inl (New ''NUL byte in payload'')"
    by (simp add: NewTCPTypedConnection_def nul_then_EOF_def StrictPayload_def drained_def)
  have "TypedConnection_Read StrictPayload ?timeout (Some ''old'') None =
     Some (Returns 0 (Some (Join [New ''unmarshal of data returned an error'',
                                  New ''NUL byte in payload''])),
           Some ''old'', nul_then_timeout\<lparr>rx := []\<rparr>)"
    using Read_unmarshal_failure [OF o b k u, of "''old''"]
    by (simp add: NewTCPTypedConnection_def nul_then_timeout_def)
  moreover have "TypedConnection_Read StrictPayload ?closed (Some ''old'') None =
     Some (Returns 0 (Some EOF), Some ''old'', nul_then_EOF\<lparr>rx := []\<rparr>)"
    using Read_unmarshal_failure [OF o b k u', of "''old''"]
    by (simp add: NewTCPTypedConnection_def nul_then_EOF_def)
  ultimately show ?thesis by simp
qed

text \<open>
  Bytes that \<open>StrictPayload\<close> cannot unmarshal arrive, then the stream ends: \<^verbatim>\<open>Read\<close> returns
  \<^verbatim>\<open>io.EOF\<close>, which is not the joined error and does not have the cause in its chain.
\<close>

theorem Read_unmarshal_failure_EOF_counterexample:
  "Unmarshal StrictPayload (zero StrictPayload) (concat (rx nul_then_EOF)) =
     Inl (New ''NUL byte in payload'')
   \<and> TypedConnection_Read StrictPayload (NewTCPTypedConnection nul_then_EOF) (Some ''old'') None =
     Some (Returns 0 (Some EOF), Some ''old'', nul_then_EOF\<lparr>rx := []\<rparr>)
   \<and> EOF \<noteq> Join [New ''unmarshal of data returned an error'', New ''NUL byte in payload'']
   \<and> \<not> errors_Is EOF (New ''NUL byte in payload'')"
  by (simp add: TypedConnection_Read_def NewTCPTypedConnection_def nul_then_EOF_def
        StrictPayload_def defaultReadOptions_def read_loop.simps conn_Read_def)

text \<open>
  \<^bold>\<open>C2.\<close> As stated (the count returned at end-of-stream is the total accumulated over all
  chunks) the property fails: line 104 returns \<open>amount\<close>, the count of the one read that
  reported end-of-stream, and that read delivers no bytes. What holds: when the reads end
  with end-of-stream, \<^verbatim>\<open>Read\<close> returns 0 together with the end-of-stream error, however
  many bytes the earlier chunks brought; those bytes are dropped with the buffer and the
  destination keeps its value.
\<close>

theorem Read_at_EOF:
  assumes "readOpts opts = Inr ro" and "0 \<le> BufferSize ro" and "0 < ChunkSize ro"
    and "errors_Is (rx_end (conn tc)) EOF"
  shows "TypedConnection_Read T tc (Some old) opts =
     Some (Returns 0 (Some (rx_end (conn tc))), Some old, (conn tc)\<lparr>rx := []\<rparr>)"
  using assms by (simp add: Read_after_loop)

theorem Read_at_EOF_witness:
  "TypedConnection_Read StringPayload (NewTCPTypedConnection hello_then_EOF) (Some ''old'')
       (Some [\<lparr>BufferSize = 16, ChunkSize = 2\<rparr>]) =
     Some (Returns 0 (Some EOF), Some ''old'', hello_then_EOF\<lparr>rx := []\<rparr>)"
proof -
  let ?tc = "NewTCPTypedConnection hello_then_EOF"
  let ?ro = "\<lparr>BufferSize = 16, ChunkSize = 2\<rparr>"
  have o: "readOpts (Some [?ro]) = Inr ?ro" by simp
  have b: "0 \<le> BufferSize ?ro" and k: "0 < ChunkSize ?ro" by simp_all
  have e: "errors_Is (rx_end (conn ?tc)) EOF"
    by (simp add: NewTCPTypedConnection_def hello_then_EOF_def)
  show ?thesis
    using Read_at_EOF [OF o b k e, of StringPayload "''old''"]
    by (simp add: NewTCPTypedConnection_def hello_then_EOF_def)
qed

text \<open>
  Five bytes arrive, then end-of-stream: the call returns 0 with \<^verbatim>\<open>io.EOF\<close>, not 5.
\<close>

theorem Read_at_EOF_total_counterexample:
  "TypedConnection_Read StringPayload (NewTCPTypedConnection hello_then_EOF) (Some ''old'') None =
     Some (Returns 0 (Some EOF), Some ''old'', hello_then_EOF\<lparr>rx := []\<rparr>)
   \<and> Returns 0 (Some EOF) \<noteq> Returns (int (length (concat (rx hello_then_EOF)))) (Some EOF)"
  by (simp add: TypedConnection_Read_def NewTCPTypedConnection_def hello_then_EOF_def
        defaultReadOptions_def read_loop.simps conn_Read_def)

section \<open>Round trip\<close>

text \<open>
  \<^bold>\<open>C1.\<close> As stated (the peer writes \<open>v\<close>, the stream reaches end-of-stream, and \<^verbatim>\<open>Read\<close>
  returns the byte count with no error and stores \<open>v\<close>) the property fails: at
  end-of-stream \<^verbatim>\<open>Read\<close> returns the end-of-stream error and stores nothing. What holds:
  for every payload \<open>v\<close> that marshals to \<open>data\<close> and unmarshals back from it, if the peer
  writes \<open>v\<close> on a working stream, the bytes arrive (in any segmentation), and the
  receiver's reads then end with an error that is not end-of-stream (its read deadline
  passing, say), then \<^verbatim>\<open>Read\<close> with a positive chunk size returns the byte count of
  \<open>data\<close> with no error and stores \<open>v\<close> in the destination.
\<close>

theorem Write_then_Read_round_trip:
  assumes "Marshal T v = Inr data" and "Unmarshal T (zero T) data = Inr v"
    and "tx_fault (conn client) = None"
    and "TypedConnection_Write T client v = (written, client')"
    and "dyn_type (conn server) \<noteq> UDPConn"
    and "concat (rx (conn server)) = drop (length (tx (conn client))) (tx client')"
    and "\<not> errors_Is (rx_end (conn server)) EOF"
    and "readOpts opts = Inr ro" and "0 \<le> BufferSize ro" and "0 < ChunkSize ro"
  shows "written = Returns (int (length data)) None \<and>
     TypedConnection_Read T server (Some old) opts =
       Some (Returns (int (length data)) None, Some v, (conn server)\<lparr>rx := []\<rparr>)"
proof -
  from assms(1,3,4) have w: "written = Returns (int (length data)) None"
    and sent: "tx client' = tx (conn client) @ data"
    by (auto simp: TypedConnection_Write_def conn_Write_def)
  from sent assms(6) have "concat (rx (conn server)) = data" by simp
  with assms(5) have "drained (nat (ChunkSize ro)) (conn server) = data"
    by (simp add: drained_def)
  with assms(2,7,8,9,10) w show ?thesis
    by (simp add: Read_after_loop)
qed

theorem Write_then_Read_round_trip_witness:
  "TypedConnection_Write StringPayload (NewTCPTypedConnection fresh_socket) ''hello'' =
     (Returns 5 None, fresh_socket\<lparr>tx := ''hello''\<rparr>)
   \<and> TypedConnection_Read StringPayload (NewTCPTypedConnection hello_then_timeout)
         (Some ''old'') None =
       Some (Returns 5 None, Some ''hello'', hello_then_timeout\<lparr>rx := []\<rparr>)"
proof -
  let ?client = "NewTCPTypedConnection fresh_socket"
  let ?server = "NewTCPTypedConnection hello_then_timeout"
  have m: "Marshal StringPayload ''hello'' = Inr ''hello''"
    and u: "Unmarshal StringPayload (zero StringPayload) ''hello'' = Inr ''hello''"
    by (simp_all add: StringPayload_def)
  have f: "tx_fault (conn ?client) = None"
    by (simp add: NewTCPTypedConnection_def fresh_socket_def)
  have w: "TypedConnection_Write StringPayload ?client ''hello'' =
             (Returns 5 None, fresh_socket\<lparr>tx := ''hello''\<rparr>)"
    by (simp add: TypedConnection_Write_def conn_Write_def NewTCPTypedConnection_def
          fresh_socket_def StringPayload_def)
  have s: "dyn_type (conn ?server) \<noteq> UDPConn"
    by (simp add: NewTCPTypedConnection_def hello_then_timeout_def)
  have a: "concat (rx (conn ?server)) =
             drop (length (tx (conn ?client))) (tx (fresh_socket\<lparr>tx := ''hello''\<rparr>))"
    by (simp add: NewTCPTypedConnection_def hello_then_timeout_def fresh_socket_def)
  have e: "\<not> errors_Is (rx_end (conn ?server)) EOF"
    by (simp add: NewTCPTypedConnection_def hello_then_timeout_def)
  have o: "readOpts None = Inr defaultReadOptions" by simp
  have b: "0 \<le> BufferSize defaultReadOptions" and k: "0 < ChunkSize defaultReadOptions"
    by (simp_all add: defaultReadOptions_def)
  show ?thesis
    using Write_then_Read_round_trip [OF m u f w s a e o b k, of "''old''"] w
    by (simp add: NewTCPTypedConnection_def)
qed

text \<open>
  The peer writes \<^verbatim>\<open>hello\<close>, all of it arrives, and the stream ends: \<^verbatim>\<open>Read\<close> returns
  0 with \<^verbatim>\<open>io.EOF\<close>, not 5 with no error, and the destination still holds its old value.
\<close>

theorem Write_then_Read_EOF_counterexample:
  "TypedConnection_Write StringPayload (NewTCPTypedConnection fresh_socket) ''hello'' =
     (Returns 5 None, fresh_socket\<lparr>tx := ''hello''\<rparr>)
   \<and> concat (rx hello_then_EOF) = tx (fresh_socket\<lparr>tx := ''hello''\<rparr>)
   \<and> rx_end hello_then_EOF = EOF
   \<and> TypedConnection_Read StringPayload (NewTCPTypedConnection hello_then_EOF)
         (Some ''old'') None =
       Some (Returns 0 (Some EOF), Some ''old'', hello_then_EOF\<lparr>rx := []\<rparr>)
   \<and> Returns 0 (Some EOF) \<noteq> Returns 5 None
   \<and> Some ''old'' \<noteq> Some ''hello''"
  by (simp add: TypedConnection_Write_def conn_Write_def TypedConnection_Read_def
        NewTCPTypedConnection_def fresh_socket_def hello_then_EOF_def StringPayload_def
        defaultReadOptions_def read_loop.simps conn_Read_def)

section \<open>Properties of Write\<close>

text \<open>
  \<^bold>\<open>C7.\<close> If marshalling the value fails, \<^verbatim>\<open>Write\<close> returns zero bytes and the error that
  joins \<^verbatim>\<open>could not marshal data to write\<close> with the cause, and the connection is as it
  was: nothing has been sent, so the peer observes no bytes.
\<close>

theorem Write_marshal_failure:
  assumes "Marshal T v = Inl cause"
  shows "TypedConnection_Write T tc v =
     (Returns 0 (Some (Join [New ''could not marshal data to write'', cause])), conn tc)"
  using assms by (simp add: TypedConnection_Write_def)

theorem Write_marshal_failure_witness:
  "TypedConnection_Write StrictPayload (NewTCPTypedConnection fresh_socket) [] =
     (Returns 0 (Some (Join [New ''could not marshal data to write'', New ''empty payload''])),
      fresh_socket)
   \<and> tx fresh_socket = []"
proof -
  have m: "Marshal StrictPayload [] = Inl (New ''empty payload'')"
    by (simp add: StrictPayload_def)
  show ?thesis
    using Write_marshal_failure [OF m, of "NewTCPTypedConnection fresh_socket"]
    by (simp add: NewTCPTypedConnection_def fresh_socket_def)
qed

section \<open>Properties of ReadFrom\<close>

text \<open>
  \<^bold>\<open>C3.\<close> The property (on a stream socket, a successful \<^verbatim>\<open>ReadFrom\<close> unmarshals the
  bytes received from the connection) does not hold of the code. On a stream socket holding
  the unread input \<^verbatim>\<open>hello\<close>, \<^verbatim>\<open>ReadFrom\<close> with a buffer size of 5 returns 5 with no error,
  but the input is still unread, five zero bytes have been sent to the peer, and the
  destination holds what five zero bytes unmarshal to.
\<close>

theorem ReadFrom_sends_zeros:
  "TCPTypedConnection_ReadFrom StringPayload (NewTCPTypedConnection hello_then_EOF) (Some ''old'')
       (Some [\<lparr>BufferSize = 5, ChunkSize = 256\<rparr>]) =
     (Returns 5 None, Some (replicate 5 (CHR 0x00)),
      hello_then_EOF\<lparr>tx := replicate 5 (CHR 0x00)\<rparr>)
   \<and> rx (hello_then_EOF\<lparr>tx := replicate 5 (CHR 0x00)\<rparr>) = [''hello'']
   \<and> Some (replicate 5 (CHR 0x00)) \<noteq> Some ''hello''"
  by (simp add: TCPTypedConnection_ReadFrom_def TCPConn_ReadFrom_def conn_Write_def
        NewTCPTypedConnection_def hello_then_EOF_def StringPayload_def Let_def
        numeral_eq_Suc)

text \<open>
  \<^bold>\<open>C4.\<close> The property (every conversion failure comes back wrapped with its cause kept)
  does not hold of \<^verbatim>\<open>ReadFrom\<close>: line 54 calls \<^verbatim>\<open>errors.Join\<close> with the context message
  alone. With a payload type whose \<^verbatim>\<open>Unmarshal\<close> fails with \<^verbatim>\<open>NUL byte in payload\<close>, the
  error \<^verbatim>\<open>ReadFrom\<close> returns does not have that cause in its chain. (\<^verbatim>\<open>Read\<close> and
  \<^verbatim>\<open>Write\<close> join context and cause; see \<open>Join_keeps_cause\<close>.)
\<close>

theorem ReadFrom_drops_unmarshal_cause:
  "Unmarshal StrictPayload (zero StrictPayload) (replicate 2 (CHR 0x00)) =
     Inl (New ''NUL byte in payload'')
   \<and> TCPTypedConnection_ReadFrom StrictPayload (NewTCPTypedConnection fresh_socket) (Some ''old'')
       (Some [\<lparr>BufferSize = 2, ChunkSize = 256\<rparr>]) =
     (Returns 2
        (Some (Join [New ''could not unmarshal incoming buffer into *netutils.StrictPayload''])),
      Some ''old'', fresh_socket\<lparr>tx := replicate 2 (CHR 0x00)\<rparr>)
   \<and> \<not> errors_Is
          (Join [New ''could not unmarshal incoming buffer into *netutils.StrictPayload''])
          (New ''NUL byte in payload'')"
  by (simp add: TCPTypedConnection_ReadFrom_def TCPConn_ReadFrom_def conn_Write_def
        NewTCPTypedConnection_def fresh_socket_def StrictPayload_def Let_def
        numeral_eq_Suc)

text \<open>
  \<^bold>\<open>C8.\<close> As stated (always) the property fails for an empty, non-nil options slice: the
  options are resolved before the type switch, and \<^verbatim>\<open>opts[0]\<close> panics. What holds: on a
  wrapper whose handle is not a \<^verbatim>\<open>*net.TCPConn\<close>, \<^verbatim>\<open>ReadFrom\<close> called with no options or
  with at least one returns zero bytes and the error
  \<^verbatim>\<open>conn is an invalid connection type for this method\<close>, and leaves the connection and the
  destination as they were.
\<close>

theorem ReadFrom_invalid_connection_type:
  assumes "dyn_type (conn ttc) \<noteq> TCPConn" and "opts \<noteq> Some []"
  shows "TCPTypedConnection_ReadFrom T ttc data opts =
     (Returns 0 (Some (New ''conn is an invalid connection type for this method'')),
      data, conn ttc)"
proof -
  from assms(2) obtain ro where "readOpts opts = Inr ro"
    by (cases opts rule: readOpts.cases) auto
  with assms(1) show ?thesis
    by (simp add: TCPTypedConnection_ReadFrom_def split: conn_dyn_type.split)
qed

theorem ReadFrom_invalid_connection_type_witness:
  "TCPTypedConnection_ReadFrom StringPayload (NewTCPTypedConnection datagram_socket)
       (Some ''old'') None =
     (Returns 0 (Some (New ''conn is an invalid connection type for this method'')),
      Some ''old'', datagram_socket)"
proof -
  have d: "dyn_type (conn (NewTCPTypedConnection datagram_socket)) \<noteq> TCPConn"
    by (simp add: NewTCPTypedConnection_def datagram_socket_def)
  have o: "(None :: ReadOptions list option) \<noteq> Some []" by simp
  show ?thesis
    using ReadFrom_invalid_connection_type [OF d o, of StringPayload "Some ''old''"]
    by (simp add: NewTCPTypedConnection_def)
qed

text \<open>On a datagram socket, with an empty options slice, the call panics.\<close>

theorem ReadFrom_invalid_connection_type_counterexample:
  "dyn_type (conn (NewTCPTypedConnection datagram_socket)) = UDPConn
   \<and> TCPTypedConnection_ReadFrom StringPayload (NewTCPTypedConnection datagram_socket)
       (Some ''old'') (Some []) =
     (Panics IndexOutOfRange, Some ''old'', datagram_socket)"
  by (simp add: TCPTypedConnection_ReadFrom_def NewTCPTypedConnection_def datagram_socket_def)

section \<open>Options\<close>

text \<open>
  \<^bold>\<open>C9.\<close> For every payload type, connection and destination, \<^verbatim>\<open>Read\<close> and \<^verbatim>\<open>ReadFrom\<close>
  called with no options do exactly what they do with the one option set
  \<^verbatim>\<open>{BufferSize: 4096, ChunkSize: 256}\<close>, and called with several option sets they do exactly
  what they do with the first alone.
\<close>

theorem default_options:
  "TypedConnection_Read T tc data None =
     TypedConnection_Read T tc data (Some [\<lparr>BufferSize = 4096, ChunkSize = 256\<rparr>])
   \<and> TCPTypedConnection_ReadFrom T tc data None =
     TCPTypedConnection_ReadFrom T tc data (Some [\<lparr>BufferSize = 4096, ChunkSize = 256\<rparr>])
   \<and> TypedConnection_Read T tc data (Some (first # others)) =
     TypedConnection_Read T tc data (Some [first])
   \<and> TCPTypedConnection_ReadFrom T tc data (Some (first # others)) =
     TCPTypedConnection_ReadFrom T tc data (Some [first])"
  by (cases data)
    (simp_all add: TypedConnection_Read_def TCPTypedConnection_ReadFrom_def
       defaultReadOptions_def)

theorem default_options_witness:
  "TypedConnection_Read StringPayload (NewTCPTypedConnection hello_then_timeout)
       (Some ''old'') None =
     TypedConnection_Read StringPayload (NewTCPTypedConnection hello_then_timeout) (Some ''old'')
       (Some [\<lparr>BufferSize = 4096, ChunkSize = 256\<rparr>])
   \<and> TCPTypedConnection_ReadFrom StringPayload (NewTCPTypedConnection hello_then_timeout)
       (Some ''old'')
       (Some [\<lparr>BufferSize = 3, ChunkSize = 1\<rparr>, \<lparr>BufferSize = 7, ChunkSize = 2\<rparr>]) =
     TCPTypedConnection_ReadFrom StringPayload (NewTCPTypedConnection hello_then_timeout)
       (Some ''old'') (Some [\<lparr>BufferSize = 3, ChunkSize = 1\<rparr>])"
  using default_options [of StringPayload "NewTCPTypedConnection hello_then_timeout"
      "Some ''old''" "\<lparr>BufferSize = 3, ChunkSize = 1\<rparr>" "[\<lparr>BufferSize = 7, ChunkSize = 2\<rparr>]"]
  by simp

text \<open>
  \<^bold>\<open>C10.\<close> As stated (either operation, called with an empty non-nil options slice, indexes
  out of range) the property fails for \<^verbatim>\<open>Read\<close> with a nil destination, which returns its
  error before the options are looked at. What holds: the guard compares the slice with
  nil and not its length with 0, so \<^verbatim>\<open>ReadFrom\<close>, and \<^verbatim>\<open>Read\<close> with a destination that is
  not nil, called with an empty non-nil slice, panic on \<^verbatim>\<open>opts[0]\<close> and do not fall back to
  the defaults; the guard yields options exactly when the slice is nil or not empty.
\<close>

theorem empty_options_slice:
  "TCPTypedConnection_ReadFrom T tc data (Some []) = (Panics IndexOutOfRange, data, conn tc)
   \<and> TypedConnection_Read T tc (Some old) (Some []) =
       Some (Panics IndexOutOfRange, Some old, conn tc)
   \<and> (readOpts opts = Inl IndexOutOfRange) = (opts = Some [])
   \<and> (\<exists>ro. readOpts opts = Inr ro) =
       (opts = None \<or> (\<exists>first others. opts = Some (first # others)))"
proof -
  have "(readOpts opts = Inl IndexOutOfRange) = (opts = Some [])"
    by (cases opts rule: readOpts.cases) simp_all
  moreover have "(\<exists>ro. readOpts opts = Inr ro) =
      (opts = None \<or> (\<exists>first others. opts = Some (first # others)))"
    by (cases opts rule: readOpts.cases) simp_all
  ultimately show ?thesis
    by (simp add: TypedConnection_Read_def TCPTypedConnection_ReadFrom_def)
qed

theorem empty_options_slice_witness:
  "TCPTypedConnection_ReadFrom StringPayload (NewTCPTypedConnection hello_then_EOF)
       (Some ''old'') (Some []) =
     (Panics IndexOutOfRange, Some ''old'', hello_then_EOF)
   \<and> TypedConnection_Read StringPayload (NewTCPTypedConnection hello_then_EOF)
       (Some ''old'') (Some []) =
     Some (Panics IndexOutOfRange, Some ''old'', hello_then_EOF)"
  using empty_options_slice [of StringPayload "NewTCPTypedConnection hello_then_EOF"
      "Some ''old''" "''old''" None]
  by (simp add: NewTCPTypedConnection_def)

text \<open>\<^verbatim>\<open>Read\<close> with a nil destination and an empty options slice returns; it does not panic.\<close>

theorem empty_options_slice_nil_destination_counterexample:
  "TypedConnection_Read StringPayload (NewTCPTypedConnection hello_then_EOF) None (Some []) =
     Some (Returns 0 (Some (New ''data pointer was nil'')), None, hello_then_EOF)
   \<and> Returns 0 (Some (New ''data pointer was nil'')) \<noteq> Panics IndexOutOfRange"
  by (simp add: TypedConnection_Read_def NewTCPTypedConnection_def)

end
